theory Spec2Isabelle
  imports Complex_Main "HOL-Library.Log_Nat"
begin

section \<open>The resume score card (client/src/components/resume-score-card.tsx)\<close>

text \<open>
  The component \<open>ResumeScoreCard\<close> is a pure function from its \<open>application\<close> prop to
  a tree of markup. The model keeps the three trees it can return apart (pending, failed,
  scored) and, for the scored tree, every piece of text, class name and number that is
  computed from the prop.

  Scores arrive decoded from a JSON payload, so they are finite doubles; a finite double
  is a rational, and the scores are modelled as rationals. Every comparison of the source
  is against a literal that a double holds exactly (0, 1.5, 4, 5, 6, 7, 8), so the
  comparisons of the model are those of the code. The arithmetic of the source
  (\<open>/\<close> and \<open>*\<close>) rounds to a double after each operation and can leave the finite
  numbers; its results are of type \<open>number\<close>. Numbers interpolated into text are kept as
  numbers. Optional fields (\<open>f?: T\<close>) are options, \<open>None\<close> for an absent field.
\<close>

subsection \<open>The prop\<close>

record company =
  name :: string

record job =
  title :: string
  company :: "company option"

record application =
  app_id :: nat
  matchScore :: rat
  skillsScore :: rat
  experienceScore :: rat
  educationScore :: rat
  companyScore :: "rat option"
  isProcessed :: bool
  processingError :: "string option"
  parsedCompanies :: "string list option"
  job :: "job option"

subsection \<open>JavaScript helpers\<close>

text \<open>Truthiness of an optional string: \<open>undefined\<close> and the empty string are falsy.\<close>

fun truthy :: "string option \<Rightarrow> bool" where
  "truthy None = False"
| "truthy (Some s) = (s \<noteq> [])"

text \<open>
  The result of an arithmetic operation: a finite double, given by its value, or one of
  \<open>Infinity\<close>, \<open>-Infinity\<close> and \<open>NaN\<close>. The two zeros of the doubles are one \<open>Num 0\<close>.
\<close>

datatype number = Num rat | PosInf | NegInf | NaN

text \<open>The integer nearest to \<open>x\<close>, the even one of the two when \<open>x\<close> lies halfway.\<close>

definition round_half_even :: "rat \<Rightarrow> int" where
  "round_half_even x =
     (let f = \<lfloor>x\<rfloor>; d = x - of_int f
      in if d < 1 / 2 then f else if 1 / 2 < d then f + 1 else if even f then f else f + 1)"

text \<open>For \<open>x > 0\<close>, the exponent \<open>k\<close> with \<open>2 ^ k \<le> x < 2 ^ (k + 1)\<close>.\<close>

definition log2_floor :: "rat \<Rightarrow> int" where
  "log2_floor x = (if 1 \<le> x then bitlen \<lfloor>x\<rfloor> - 1 else - bitlen (\<lceil>1 / x\<rceil> - 1))"

text \<open>
  Rounding of a positive number to 53 significant bits, to nearest and ties to even, with
  the least exponent \<open>-1074\<close> of the doubles (below it the subnormal numbers lose
  precision) and no bound on the exponent above.
\<close>

definition round_pos :: "rat \<Rightarrow> rat" where
  "round_pos x =
     (let e = max (log2_floor x - 52) (- 1074)
      in of_int (round_half_even (x / 2 powi e)) * 2 powi e)"

text \<open>
  The double of an exact result: the rounded number, or an infinity once the rounded
  magnitude reaches \<open>2 ^ 1024\<close>.
\<close>

definition to_double :: "rat \<Rightarrow> number" where
  "to_double x =
     (if x = 0 then Num 0
      else let r = round_pos \<bar>x\<bar>
           in if 2 ^ 1024 \<le> r then (if 0 < x then PosInf else NegInf)
              else Num (if 0 < x then r else - r))"

text \<open>
  \<open>a / b\<close> on finite numbers: the exact quotient rounded to a double; a zero divisor
  gives an infinity, or \<open>NaN\<close> for \<open>0 / 0\<close>.
\<close>

definition js_div :: "rat \<Rightarrow> rat \<Rightarrow> number" where
  "js_div a b =
     (if b = 0 then (if a = 0 then NaN else if 0 < a then PosInf else NegInf)
      else to_double (a / b))"

text \<open>\<open>x * y\<close> for a finite \<open>y\<close>.\<close>

fun js_mul :: "number \<Rightarrow> rat \<Rightarrow> number" where
  "js_mul (Num x) y = to_double (x * y)"
| "js_mul PosInf y = (if y = 0 then NaN else if 0 < y then PosInf else NegInf)"
| "js_mul NegInf y = (if y = 0 then NaN else if 0 < y then NegInf else PosInf)"
| "js_mul NaN y = NaN"

text \<open>\<open>(score / scale) * 100\<close>, the value handed to a progress bar.\<close>

definition percent :: "rat \<Rightarrow> rat \<Rightarrow> number" where
  "percent score scale = js_mul (js_div score scale) 100"

text \<open>A destructuring default \<open>{ f = d }\<close>: the default stands in for an absent field.\<close>

definition default :: "'a \<Rightarrow> 'a option \<Rightarrow> 'a" where
  "default d x = (case x of None \<Rightarrow> d | Some v \<Rightarrow> v)"

text \<open>\<open>xs.join(sep)\<close>.\<close>

fun join :: "string \<Rightarrow> string list \<Rightarrow> string" where
  "join sep [] = []"
| "join sep [x] = x"
| "join sep (x # y # ys) = x @ sep @ join sep (y # ys)"

subsection \<open>Band helpers (lines 72-91)\<close>

definition getScoreColor :: "rat \<Rightarrow> string" where
  "getScoreColor score =
     (if score \<ge> 8 then ''text-green-600 bg-green-100''
      else if score \<ge> 6 then ''text-yellow-600 bg-yellow-100''
      else if score \<ge> 4 then ''text-orange-600 bg-orange-100''
      else ''text-red-600 bg-red-100'')"

definition getScoreLabel :: "rat \<Rightarrow> string" where
  "getScoreLabel score =
     (if score \<ge> 8 then ''Excellent Match''
      else if score \<ge> 6 then ''Good Match''
      else if score \<ge> 4 then ''Fair Match''
      else ''Needs Improvement'')"

definition getProgressColor :: "rat \<Rightarrow> string" where
  "getProgressColor score =
     (if score \<ge> 8 then ''bg-green-500''
      else if score \<ge> 6 then ''bg-yellow-500''
      else if score \<ge> 4 then ''bg-orange-500''
      else ''bg-red-500'')"

subsection \<open>The markup returned\<close>

text \<open>
  A sub-score card of the breakdown grid: the colour class of its figure, the figure
  \<open>{score}/{max}\<close> and the value of its progress bar.
\<close>

record score_card =
  card_color :: string
  card_score :: rat
  card_max :: rat
  card_progress :: number

text \<open>
  The company card prints \<open>+{companyScore}\<close> when the score is positive and the bare
  number otherwise; its progress bar is 0 or 100; the first two parsed companies are
  listed when there are any.
\<close>

datatype company_figure = Plus rat | Plain rat

record company_card =
  cc_color :: string
  cc_figure :: company_figure
  cc_progress :: rat
  cc_companies :: "string option"

record scored_view =
  sv_heading :: "string option"
  sv_score :: rat
  sv_color :: string
  sv_label :: string
  sv_progress :: number
  sv_progress_color :: string
  sv_gradient_stop :: number
  sv_skills :: score_card
  sv_experience :: score_card
  sv_education :: score_card
  sv_company :: company_card
  sv_recommendations :: "string list"
  sv_qualification :: string

text \<open>
  \<open>Pending\<close> is the "Resume Analysis Pending" card (lines 30-48), \<open>Failed e\<close> the
  "Analysis Failed" card (lines 52-69) whose description is the text \<open>e\<close>, and
  \<open>Scored v\<close> the score card proper (lines 93-223).
\<close>

datatype view = Pending | Failed string | Scored scored_view

subsection \<open>Pieces of the scored card\<close>

text \<open>The job line of the heading (lines 99-104).\<close>

definition heading :: "job option \<Rightarrow> string option" where
  "heading jo =
     map_option
       (\<lambda>j. title j @ (case company j of None \<Rightarrow> [] | Some c \<Rightarrow> '' at '' @ name c)) jo"

text \<open>\<open>application.job?.company\<close> as a condition: is there a target company?\<close>

definition has_company :: "job option \<Rightarrow> bool" where
  "has_company jo = (case jo of None \<Rightarrow> False | Some j \<Rightarrow> company j \<noteq> None)"

text \<open>
  The recommendation list (lines 178-200), each item without its leading bullet. The
  parameters are the destructured values of line 27 and \<open>application.job\<close>.
\<close>

definition recommendations :: "rat \<Rightarrow> rat \<Rightarrow> rat \<Rightarrow> rat \<Rightarrow> rat \<Rightarrow> job option \<Rightarrow> string list" where
  "recommendations matchScore' skillsScore' experienceScore' educationScore' companyScore' jo =
     (if skillsScore' < 4
      then [''Focus on highlighting more relevant technical skills (highest impact)''] else []) @
     (if experienceScore' < 3 / 2
      then [''Emphasize your relevant work experience and achievements''] else []) @
     (if educationScore' < 3 / 2
      then [''Include relevant certifications or educational background''] else []) @
     (if companyScore' = 0 \<and> has_company jo
      then [''Highlight any experience with similar companies or clients''] else []) @
     (if companyScore' > 0
      then [''Excellent! Your experience with similar companies is a strong advantage''] else []) @
     (if matchScore' \<ge> 7
      then [''Great match! Your profile aligns well with this position''] else []) @
     (if matchScore' < 5
      then [''Consider tailoring your resume to better match job requirements''] else [])"

text \<open>The qualification status (lines 204-220).\<close>

definition qualification :: "rat \<Rightarrow> string" where
  "qualification matchScore' =
     (if matchScore' \<ge> 5 then ''Qualified - Resume meets minimum requirements''
      else ''Below threshold - Consider improving your resume'')"

text \<open>The company card (lines 159-169).\<close>

definition companyCard :: "rat \<Rightarrow> string list \<Rightarrow> company_card" where
  "companyCard companyScore' parsedCompanies' =
     \<lparr> cc_color = ''text-orange-600'',
       cc_figure = (if companyScore' > 0 then Plus companyScore' else Plain companyScore'),
       cc_progress = (if companyScore' > 0 then 100 else 0),
       cc_companies =
         (if length parsedCompanies' > 0 then Some (join '', '' (take 2 parsedCompanies'))
          else None) \<rparr>"

subsection \<open>The component\<close>

text \<open>
  Line 27 destructures the prop with the defaults \<open>companyScore = 0\<close> and
  \<open>parsedCompanies = []\<close>; the two early returns follow, then the scored card.
\<close>

definition ResumeScoreCard :: "application \<Rightarrow> view" where
  "ResumeScoreCard a =
     (let companyScore' = default 0 (companyScore a);
          parsedCompanies' = default [] (parsedCompanies a)
      in if \<not> isProcessed a then Pending
         else if truthy (processingError a) then Failed (the (processingError a))
         else Scored
           \<lparr> sv_heading = heading (job a),
             sv_score = matchScore a,
             sv_color = getScoreColor (matchScore a),
             sv_label = getScoreLabel (matchScore a),
             sv_progress = percent (matchScore a) 12,
             sv_progress_color = getProgressColor (matchScore a),
             sv_gradient_stop = percent (matchScore a) 12,
             sv_skills =
               \<lparr> card_color = ''text-blue-600'', card_score = skillsScore a, card_max = 6,
                 card_progress = percent (skillsScore a) 6 \<rparr>,
             sv_experience =
               \<lparr> card_color = ''text-purple-600'', card_score = experienceScore a, card_max = 2,
                 card_progress = percent (experienceScore a) 2 \<rparr>,
             sv_education =
               \<lparr> card_color = ''text-green-600'', card_score = educationScore a, card_max = 2,
                 card_progress = percent (educationScore a) 2 \<rparr>,
             sv_company = companyCard companyScore' parsedCompanies',
             sv_recommendations =
               recommendations (matchScore a) (skillsScore a) (experienceScore a)
                 (educationScore a) companyScore' (job a),
             sv_qualification = qualification (matchScore a) \<rparr>)"


subsection \<open>Reading a view\<close>

text \<open>
  What a view shows of the scoring: its band label and colour token, its recommendation
  list, its qualification status, the value of its overall progress bar, its skills card,
  the colours of its four sub-score cards, its error text. A card that does not show one
  has \<open>None\<close> there.
\<close>

fun view_band :: "view \<Rightarrow> (string \<times> string) option" where
  "view_band (Scored v) = Some (sv_label v, sv_color v)"
| "view_band _ = None"

fun view_recommendations :: "view \<Rightarrow> string list option" where
  "view_recommendations (Scored v) = Some (sv_recommendations v)"
| "view_recommendations _ = None"

fun view_qualification :: "view \<Rightarrow> string option" where
  "view_qualification (Scored v) = Some (sv_qualification v)"
| "view_qualification _ = None"

fun view_progress :: "view \<Rightarrow> number option" where
  "view_progress (Scored v) = Some (sv_progress v)"
| "view_progress _ = None"

fun view_skills :: "view \<Rightarrow> score_card option" where
  "view_skills (Scored v) = Some (sv_skills v)"
| "view_skills _ = None"

fun view_card_colors :: "view \<Rightarrow> string list option" where
  "view_card_colors (Scored v) =
     Some [card_color (sv_skills v), card_color (sv_experience v),
           card_color (sv_education v), cc_color (sv_company v)]"
| "view_card_colors _ = None"

fun view_error :: "view \<Rightarrow> string option" where
  "view_error (Failed e) = Some e"
| "view_error _ = None"

subsection \<open>The rules as the specification declares them\<close>

text \<open>
  The seven recommendation rules in their declared order, each a message and the
  predicate under which it is emitted; \<open>recommend_spec\<close> keeps the messages of the
  rules that hold, in that order.
\<close>

definition rule_list :: "(string \<times> (application \<Rightarrow> bool)) list" where
  "rule_list =
     [(''Focus on highlighting more relevant technical skills (highest impact)'',
         \<lambda>a. skillsScore a < 4),
      (''Emphasize your relevant work experience and achievements'',
         \<lambda>a. experienceScore a < 3 / 2),
      (''Include relevant certifications or educational background'',
         \<lambda>a. educationScore a < 3 / 2),
      (''Highlight any experience with similar companies or clients'',
         \<lambda>a. default 0 (companyScore a) = 0 \<and> has_company (job a)),
      (''Excellent! Your experience with similar companies is a strong advantage'',
         \<lambda>a. default 0 (companyScore a) > 0),
      (''Great match! Your profile aligns well with this position'',
         \<lambda>a. matchScore a \<ge> 7),
      (''Consider tailoring your resume to better match job requirements'',
         \<lambda>a. matchScore a < 5)]"

definition recommend_spec :: "application \<Rightarrow> string list" where
  "recommend_spec a = map fst (filter (\<lambda>r. snd r a) rule_list)"

text \<open>The messages of rule 4 and rule 5, the two company rules.\<close>

definition company_gap_text :: string where
  "company_gap_text = ''Highlight any experience with similar companies or clients''"

definition company_match_text :: string where
  "company_match_text =
     ''Excellent! Your experience with similar companies is a strong advantage''"

text \<open>
  The banding of a sub-score as the specification words it: the score is first brought
  to its 12-point equivalent, then compared with the thresholds.
\<close>

definition classify_rescaled :: "rat \<Rightarrow> rat \<Rightarrow> string" where
  "classify_rescaled score scale = getScoreLabel (score * 12 / scale)"

text \<open>
  A progress value that is a finite number between 0 and 100, the percentage of a ratio
  between 0 and 1.
\<close>

definition within_percent :: "number \<Rightarrow> bool" where
  "within_percent x = (case x of Num p \<Rightarrow> 0 \<le> p \<and> p \<le> 100 | _ \<Rightarrow> False)"

subsection \<open>Example assessments\<close>

text \<open>The two scored scenarios of the specification, and variations used below.\<close>

definition scenario_gap :: application where
  "scenario_gap =
     \<lparr> app_id = 1, matchScore = 6, skillsScore = 2, experienceScore = 2,
       educationScore = 2, companyScore = Some 0, isProcessed = True,
       processingError = None, parsedCompanies = Some [], job = None \<rparr>"

definition scenario_strong :: application where
  "scenario_strong =
     \<lparr> app_id = 2, matchScore = 53 / 5, skillsScore = 5, experienceScore = 9 / 5,
       educationScore = 9 / 5, companyScore = Some 2, isProcessed = True,
       processingError = None, parsedCompanies = Some [''Acme'', ''Globex'', ''Initech''],
       job = Some \<lparr> title = ''Engineer'', company = Some \<lparr> name = ''Hooli'' \<rparr> \<rparr> \<rparr>"

text \<open>An assessment still being analysed that already carries an error text.\<close>

definition scenario_pending :: application where
  "scenario_pending = scenario_gap \<lparr> isProcessed := False, processingError := Some ''OCR failed'' \<rparr>"

text \<open>A processed assessment whose analysis failed.\<close>

definition scenario_failed :: application where
  "scenario_failed = scenario_gap \<lparr> processingError := Some ''OCR failed'' \<rparr>"

text \<open>A processed assessment whose error field is present and empty.\<close>

definition scenario_empty_error :: application where
  "scenario_empty_error = scenario_gap \<lparr> processingError := Some [] \<rparr>"

text \<open>A processed assessment whose total exceeds the 12-point scale.\<close>

definition scenario_overflow :: application where
  "scenario_overflow = scenario_gap \<lparr> matchScore := 13 \<rparr>"

text \<open>A processed assessment whose total is beyond anything a double can hold 100 times.\<close>

definition scenario_huge :: application where
  "scenario_huge = scenario_gap \<lparr> matchScore := 2 ^ 1023 \<rparr>"

text \<open>
  Two assessments with the same total of 6: one with a skills score of 4 out of 6, one
  with a skills score of 1 out of 6.
\<close>

definition scenario_skills_high :: application where
  "scenario_skills_high =
     scenario_gap \<lparr> skillsScore := 4, experienceScore := 1, educationScore := 1 \<rparr>"

definition scenario_skills_low :: application where
  "scenario_skills_low = scenario_gap \<lparr> skillsScore := 1, companyScore := Some 1 \<rparr>"

text \<open>An assessment without the optional company fields, for a job with a company.\<close>

definition scenario_no_company_fields :: application where
  "scenario_no_company_fields =
     scenario_strong \<lparr> companyScore := None, parsedCompanies := None \<rparr>"

section \<open>Properties\<close>

subsection \<open>Shared facts\<close>

lemma scored_iff:
  "(ResumeScoreCard a = Scored v) =
     (isProcessed a \<and> \<not> truthy (processingError a) \<and>
      v = \<lparr> sv_heading = heading (job a),
            sv_score = matchScore a,
            sv_color = getScoreColor (matchScore a),
            sv_label = getScoreLabel (matchScore a),
            sv_progress = percent (matchScore a) 12,
            sv_progress_color = getProgressColor (matchScore a),
            sv_gradient_stop = percent (matchScore a) 12,
            sv_skills =
              \<lparr> card_color = ''text-blue-600'', card_score = skillsScore a, card_max = 6,
                card_progress = percent (skillsScore a) 6 \<rparr>,
            sv_experience =
              \<lparr> card_color = ''text-purple-600'', card_score = experienceScore a, card_max = 2,
                card_progress = percent (experienceScore a) 2 \<rparr>,
            sv_education =
              \<lparr> card_color = ''text-green-600'', card_score = educationScore a, card_max = 2,
                card_progress = percent (educationScore a) 2 \<rparr>,
            sv_company = companyCard (default 0 (companyScore a)) (default [] (parsedCompanies a)),
            sv_recommendations =
              recommendations (matchScore a) (skillsScore a) (experienceScore a)
                (educationScore a) (default 0 (companyScore a)) (job a),
            sv_qualification = qualification (matchScore a) \<rparr>)"
  by (auto simp: ResumeScoreCard_def Let_def)

lemma pending_iff: "(ResumeScoreCard a = Pending) = (\<not> isProcessed a)"
  by (simp add: ResumeScoreCard_def Let_def)

lemma failed_iff:
  "(ResumeScoreCard a = Failed e) =
     (isProcessed a \<and> processingError a = Some e \<and> e \<noteq> [])"
  by (cases "processingError a") (auto simp: ResumeScoreCard_def Let_def)

subsection \<open>Rounding to a double\<close>

lemma bitlen_pos: "0 < n \<Longrightarrow> 1 \<le> bitlen n"
  using bitlen_eq_zero_iff [of n] bitlen_nonneg [of n] by linarith

lemma log2_floor_bounds:
  assumes "0 < x"
  shows "2 powi (log2_floor x) \<le> x \<and> x < 2 powi (log2_floor x + 1)"
proof (cases "1 \<le> x")
  case True
  define n where "n = \<lfloor>x\<rfloor>"
  have n: "0 < n" using True by (simp add: n_def)
  define k where "k = nat (bitlen n - 1)"
  have bl: "bitlen n = int k + 1"
    using bitlen_pos [OF n] by (simp add: k_def)
  have "nat (bitlen n) = Suc k" unfolding bl by simp
  with bitlen_bounds [OF n] have b: "2 ^ k \<le> n" "n < 2 ^ Suc k"
    by (simp_all only: k_def [symmetric])
  have fl: "log2_floor x = int k"
    using True by (simp add: log2_floor_def n_def [symmetric] bl)
  have "(2::rat) ^ k = of_int (2 ^ k)" by simp
  also have "\<dots> \<le> of_int n" using b(1) by (simp only: of_int_le_iff)
  also have "\<dots> \<le> x" by (simp add: n_def)
  finally have lo: "(2::rat) ^ k \<le> x" .
  have "x < of_int n + 1" unfolding n_def by linarith
  also have "\<dots> = of_int (n + 1)" by simp
  also have "\<dots> \<le> of_int (2 ^ Suc k)" using b(2) by (simp only: of_int_le_iff)
  also have "\<dots> = (2::rat) ^ Suc k" by simp
  finally have hi: "x < (2::rat) ^ Suc k" .
  have "2 powi (int k + 1) = (2::rat) ^ Suc k"
    by (metis of_nat_Suc power_int_of_nat add.commute)
  with lo hi show ?thesis by (simp add: fl)
next
  case False
  define y where "y = 1 / x"
  have y: "1 < y" using False assms by (simp add: y_def)
  define n where "n = \<lceil>y\<rceil> - 1"
  have n: "0 < n" using y by (simp add: n_def less_ceiling_iff)
  define k where "k = nat (bitlen n - 1)"
  have bl: "bitlen n = int k + 1"
    using bitlen_pos [OF n] by (simp add: k_def)
  have "nat (bitlen n) = Suc k" unfolding bl by simp
  with bitlen_bounds [OF n] have b: "2 ^ k \<le> n" "n < 2 ^ Suc k"
    by (simp_all only: k_def [symmetric])
  have fl: "log2_floor x = - (int k + 1)"
    using False by (simp add: log2_floor_def y_def [symmetric] n_def [symmetric] bl)
  have "y \<le> of_int (n + 1)" unfolding n_def by simp
  also have "\<dots> \<le> of_int (2 ^ Suc k)" using b(2) by (simp only: of_int_le_iff)
  also have "\<dots> = (2::rat) ^ Suc k" by simp
  finally have yhi: "y \<le> (2::rat) ^ Suc k" .
  have "(2::rat) ^ k = of_int (2 ^ k)" by simp
  also have "\<dots> \<le> of_int n" using b(1) by (simp only: of_int_le_iff)
  also have "\<dots> < y" unfolding n_def by linarith
  finally have ylo: "(2::rat) ^ k < y" .
  have x: "x = 1 / y" using assms by (simp add: y_def)
  have lo: "1 / (2::rat) ^ Suc k \<le> x"
    unfolding x using yhi y by (simp add: field_simps)
  have hi: "x < 1 / (2::rat) ^ k"
    unfolding x using ylo y by (simp add: field_simps)
  have p1: "2 powi (- (int k + 1)) = 1 / (2::rat) ^ Suc k"
    by (metis of_nat_Suc power_int_of_nat add.commute power_int_minus_divide)
  have p2: "2 powi (- (int k + 1) + 1) = 1 / (2::rat) ^ k"
    by (simp add: power_int_minus_divide)
  from lo hi show ?thesis by (simp only: fl p1 p2)
qed

lemma pow2_less_imp:
  assumes "(2::rat) powi m < 2 powi n"
  shows "m < n"
proof (rule ccontr)
  assume "\<not> m < n"
  then have "n \<le> m" by simp
  then have "(2::rat) powi n \<le> 2 powi m" by (rule power_int_increasing) simp
  with assms show False by simp
qed

lemma log2_floor_eqI:
  assumes "2 powi k \<le> x" and "x < 2 powi (k + 1)"
  shows "log2_floor x = k"
proof -
  have x: "0 < x" using assms(1) by (rule less_le_trans [rotated]) simp
  from log2_floor_bounds [OF x]
  have b: "2 powi (log2_floor x) \<le> x" "x < 2 powi (log2_floor x + 1)" by simp_all
  have "(2::rat) powi k < 2 powi (log2_floor x + 1)" using assms(1) b(2) by simp
  then have 1: "k < log2_floor x + 1"
    by (rule pow2_less_imp)
  have "(2::rat) powi (log2_floor x) < 2 powi (k + 1)" using assms(2) b(1) by simp
  then have 2: "log2_floor x < k + 1"
    by (rule pow2_less_imp)
  from 1 2 show ?thesis by simp
qed

lemma round_half_even_le:
  assumes "x \<le> of_int n"
  shows "round_half_even x \<le> n"
proof -
  have f: "\<lfloor>x\<rfloor> \<le> n" using assms by (simp add: floor_le_iff)
  show ?thesis
  proof (cases "\<lfloor>x\<rfloor> = n")
    case True
    then have "x - of_int \<lfloor>x\<rfloor> \<le> 0" using assms by simp
    then show ?thesis using True by (simp add: round_half_even_def Let_def)
  next
    case False
    with f have "\<lfloor>x\<rfloor> + 1 \<le> n" by simp
    then show ?thesis by (simp add: round_half_even_def Let_def)
  qed
qed

lemma round_half_even_nonneg:
  assumes "0 \<le> x"
  shows "0 \<le> round_half_even x"
proof -
  have "0 \<le> \<lfloor>x\<rfloor>" using assms by simp
  then show ?thesis by (simp add: round_half_even_def Let_def)
qed

lemma round_half_even_eqI:
  assumes "of_int m - 1 / 2 < x" and "x < of_int m + 1 / 2"
  shows "round_half_even x = m"
proof -
  have "\<lfloor>x\<rfloor> = m \<or> \<lfloor>x\<rfloor> = m - 1"
  proof (cases "of_int m \<le> x")
    case True
    with assms(2) have "\<lfloor>x\<rfloor> = m" by (simp add: floor_eq_iff)
    then show ?thesis ..
  next
    case False
    with assms(1) have "\<lfloor>x\<rfloor> = m - 1" by (simp add: floor_eq_iff)
    then show ?thesis ..
  qed
  then show ?thesis
  proof
    assume f: "\<lfloor>x\<rfloor> = m"
    then have "x - of_int \<lfloor>x\<rfloor> < 1 / 2" using assms by simp
    then show ?thesis using f by (simp add: round_half_even_def Let_def)
  next
    assume f: "\<lfloor>x\<rfloor> = m - 1"
    then have "1 / 2 < x - of_int \<lfloor>x\<rfloor>" using assms by simp
    then show ?thesis using f by (simp add: round_half_even_def Let_def)
  qed
qed

text \<open>Rounding keeps a number between 0 and an integer below \<open>2 ^ 53\<close> in that range.\<close>

lemma to_double_bounded:
  assumes "0 \<le> x" and "x \<le> of_int h" and "h < 2 ^ 53"
  shows "\<exists>r. to_double x = Num r \<and> 0 \<le> r \<and> r \<le> of_int h"
proof (cases "x = 0")
  case True
  with assms(2) show ?thesis by (simp add: to_double_def)
next
  case False
  with assms(1) have x: "0 < x" by simp
  define e where "e = max (log2_floor x - 52) (- 1074)"
  define n where "n = nat (- e)"
  from log2_floor_bounds [OF x] have "2 powi (log2_floor x) \<le> x" by simp
  also have "x \<le> of_int h" by fact
  also have "of_int h < (2::rat) ^ 53" using assms(3) by (simp only: flip: of_int_less_iff [where 'a = rat]) simp
  finally have "(2::rat) powi (log2_floor x) < 2 powi 53" by simp
  then have "log2_floor x < 53" by (rule pow2_less_imp)
  then have e: "e \<le> 0" by (simp add: e_def)
  then have p: "2 powi e = 1 / (2::rat) ^ n"
    by (simp add: n_def power_int_def field_simps)
  define m where "m = round_half_even (x / 2 powi e)"
  have xs: "x / 2 powi e = x * 2 ^ n" by (simp add: p)
  have "x * 2 ^ n \<le> of_int h * 2 ^ n" using assms(2) by simp
  then have "x / 2 powi e \<le> of_int (h * 2 ^ n)" by (simp add: xs)
  then have mh: "m \<le> h * 2 ^ n" unfolding m_def by (rule round_half_even_le)
  have m0: "0 \<le> m" unfolding m_def
    by (rule round_half_even_nonneg) (use x in \<open>simp add: xs\<close>)
  have "round_pos x = of_int m * 2 powi e"
    by (simp only: round_pos_def Let_def e_def [symmetric] m_def [symmetric])
  then have r: "round_pos x = of_int m / 2 ^ n"
    by (simp add: p)
  have "of_int m \<le> (of_int (h * 2 ^ n) :: rat)" using mh by (simp only: of_int_le_iff)
  then have rh: "round_pos x \<le> of_int h" by (simp add: r field_simps)
  have r0: "0 \<le> round_pos x" using m0 by (simp add: r)
  have "of_int h < (2::rat) ^ 1024"
  proof -
    have "of_int h < (2::rat) ^ 53" by fact
    also have "\<dots> \<le> 2 ^ 1024" by (rule power_increasing) simp_all
    finally show ?thesis .
  qed
  with rh have "\<not> 2 ^ 1024 \<le> round_pos x" by simp
  with rh r0 x show ?thesis by (simp add: to_double_def Let_def)
qed

lemma percent_in_range:
  assumes "0 < k" and "0 \<le> s" and "s \<le> k"
  shows "within_percent (percent s k)"
proof -
  have "0 \<le> s / k" "s / k \<le> of_int 1" using assms by simp_all
  from to_double_bounded [OF this] obtain r where r: "to_double (s / k) = Num r" "0 \<le> r" "r \<le> 1"
    by auto
  have "0 \<le> r * 100" "r * 100 \<le> of_int 100" using r by simp_all
  from to_double_bounded [OF this] obtain q where "to_double (r * 100) = Num q" "0 \<le> q" "q \<le> 100"
    by auto
  with r assms(1) show ?thesis
    by (simp add: percent_def js_div_def within_percent_def)
qed

lemma to_double_not_NaN: "to_double x \<noteq> NaN"
  by (simp add: to_double_def Let_def)

lemma percent_not_NaN:
  assumes "k \<noteq> 0"
  shows "percent s k \<noteq> NaN"
proof (cases "to_double (s / k)")
  case (Num r)
  with assms show ?thesis by (simp add: percent_def js_div_def to_double_not_NaN)
next
  case PosInf
  with assms show ?thesis by (simp add: percent_def js_div_def)
next
  case NegInf
  with assms show ?thesis by (simp add: percent_def js_div_def)
next
  case NaN
  then show ?thesis by (simp add: to_double_not_NaN)
qed

lemma round_pos_eqI:
  assumes "2 powi (e + 52) \<le> x" and "x < 2 powi (e + 53)" and "- 1074 \<le> e"
    and "of_int m - 1 / 2 < x / 2 powi e" and "x / 2 powi e < of_int m + 1 / 2"
  shows "round_pos x = of_int m * 2 powi e"
proof -
  have "log2_floor x = e + 52"
    using assms(1,2) by (intro log2_floor_eqI) (simp_all add: add.commute add.left_commute)
  then have "max (log2_floor x - 52) (- 1074) = e" using assms(3) by simp
  moreover have "round_half_even (x / 2 powi e) = m"
    using assms(4,5) by (rule round_half_even_eqI)
  ultimately show ?thesis by (simp add: round_pos_def Let_def)
qed

lemma to_double_eqI:
  assumes "2 powi (e + 52) \<le> x" and "x < 2 powi (e + 53)" and "- 1074 \<le> e"
    and "of_int m - 1 / 2 < x / 2 powi e" and "x / 2 powi e < of_int m + 1 / 2"
  shows "to_double x =
           (if 2 ^ 1024 \<le> rat_of_int m * 2 powi e then PosInf
            else Num (rat_of_int m * 2 powi e))"
proof -
  have "0 < x" using assms(1) by (rule less_le_trans [rotated]) simp
  then show ?thesis
    by (simp add: to_double_def Let_def round_pos_eqI [OF assms])
qed

text \<open>The progress values of the examples, each by the exponent and the mantissa of its two roundings.\<close>

lemma percent_13_12: "percent 13 12 = Num (7623280619246933 / 70368744177664)"
proof -
  have "to_double (13 / 12) = Num (4878899596318037 / 4503599627370496)"
    using to_double_eqI [of "- 52" "13 / 12" 4878899596318037] by simp
  moreover have "to_double (4878899596318037 / 4503599627370496 * 100) =
                   Num (7623280619246933 / 70368744177664)"
    using to_double_eqI [of "- 46" "4878899596318037 / 4503599627370496 * 100" 7623280619246933]
    by simp
  ultimately show ?thesis by (simp add: percent_def js_div_def)
qed

lemma percent_huge: "percent (2 ^ 1023) 12 = PosInf"
proof -
  have "to_double (2 ^ 1023 / 12) = Num (6004799503160661 * 2 ^ 967)"
    using to_double_eqI [of 967 "2 ^ 1023 / 12" 6004799503160661] by simp
  moreover have "to_double (6004799503160661 * 2 ^ 967 * 100) = PosInf"
    using to_double_eqI [of 974 "6004799503160661 * 2 ^ 967 * 100" 4691249611844266] by simp
  ultimately show ?thesis by (simp add: percent_def js_div_def)
qed

lemma percent_4_6: "percent 4 6 = Num (2345624805922133 / 35184372088832)"
proof -
  have "to_double (4 / 6) = Num (6004799503160661 / 9007199254740992)"
    using to_double_eqI [of "- 53" "4 / 6" 6004799503160661] by simp
  moreover have "to_double (6004799503160661 / 9007199254740992 * 100) =
                   Num (2345624805922133 / 35184372088832)"
    using to_double_eqI [of "- 46" "6004799503160661 / 9007199254740992 * 100" 4691249611844266]
    by simp
  ultimately show ?thesis by (simp add: percent_def js_div_def)
qed

lemma percent_1_6: "percent 1 6 = Num (2345624805922133 / 140737488355328)"
proof -
  have "to_double (1 / 6) = Num (6004799503160661 / 36028797018963968)"
    using to_double_eqI [of "- 55" "1 / 6" 6004799503160661] by simp
  moreover have "to_double (6004799503160661 / 36028797018963968 * 100) =
                   Num (2345624805922133 / 140737488355328)"
    using to_double_eqI [of "- 48" "6004799503160661 / 36028797018963968 * 100" 4691249611844266]
    by simp
  ultimately show ?thesis by (simp add: percent_def js_div_def)
qed

lemma percent_2_6: "percent 2 6 = Num (2345624805922133 / 70368744177664)"
proof -
  have "to_double (2 / 6) = Num (6004799503160661 / 18014398509481984)"
    using to_double_eqI [of "- 54" "2 / 6" 6004799503160661] by simp
  moreover have "to_double (6004799503160661 / 18014398509481984 * 100) =
                   Num (2345624805922133 / 70368744177664)"
    using to_double_eqI [of "- 47" "6004799503160661 / 18014398509481984 * 100" 4691249611844266]
    by simp
  ultimately show ?thesis by (simp add: percent_def js_div_def)
qed

lemma percent_6_12: "percent 6 12 = Num 50"
proof -
  have "to_double (6 / 12) = Num (1 / 2)"
    using to_double_eqI [of "- 53" "6 / 12" 4503599627370496] by simp
  moreover have "to_double (1 / 2 * 100) = Num 50"
    using to_double_eqI [of "- 47" "1 / 2 * 100" 7036874417766400] by simp
  ultimately show ?thesis by (simp add: percent_def js_div_def)
qed

lemma percent_2_2: "percent 2 2 = Num 100"
proof -
  have "to_double (2 / 2) = Num 1"
    using to_double_eqI [of "- 52" "2 / 2" 4503599627370496] by simp
  moreover have "to_double (1 * 100) = Num 100"
    using to_double_eqI [of "- 46" "1 * 100" 7036874417766400] by simp
  ultimately show ?thesis by (simp add: percent_def js_div_def)
qed

subsection \<open>The examples are scored\<close>

lemma scenario_gap_scored:
  "isProcessed scenario_gap \<and> \<not> truthy (processingError scenario_gap)"
  by (simp add: scenario_gap_def)

lemma scenario_strong_scored:
  "isProcessed scenario_strong \<and> \<not> truthy (processingError scenario_strong)"
  by (simp add: scenario_strong_def)

subsection \<open>Qualification\<close>

text \<open>
  C1. On the scored card the qualification status reads "Qualified" exactly when
  \<open>matchScore \<ge> 5\<close> and "Below threshold" exactly when \<open>matchScore < 5\<close>; the bound
  is inclusive (5 is qualified, 4.999 is not).
\<close>

theorem qualification_threshold:
  assumes "isProcessed a" and "\<not> truthy (processingError a)"
  shows "(view_qualification (ResumeScoreCard a) =
            Some ''Qualified - Resume meets minimum requirements'') = (matchScore a \<ge> 5) \<and>
         (view_qualification (ResumeScoreCard a) =
            Some ''Below threshold - Consider improving your resume'') = (matchScore a < 5)"
proof -
  have "ResumeScoreCard a = Scored v \<Longrightarrow> sv_qualification v = qualification (matchScore a)" for v
    by (simp add: scored_iff)
  moreover obtain v where "ResumeScoreCard a = Scored v"
    using assms by (simp add: scored_iff)
  ultimately have "view_qualification (ResumeScoreCard a) = Some (qualification (matchScore a))"
    by simp
  then show ?thesis
    by (simp add: qualification_def)
qed

theorem qualification_threshold_witness:
  "view_qualification (ResumeScoreCard (scenario_gap \<lparr> matchScore := 5 \<rparr>)) =
     Some ''Qualified - Resume meets minimum requirements'' \<and>
   view_qualification (ResumeScoreCard (scenario_gap \<lparr> matchScore := 4999 / 1000 \<rparr>)) =
     Some ''Below threshold - Consider improving your resume''"
proof -
  let ?hi = "scenario_gap \<lparr> matchScore := 5 \<rparr>"
  let ?lo = "scenario_gap \<lparr> matchScore := 4999 / 1000 \<rparr>"
  have hi: "isProcessed ?hi" "\<not> truthy (processingError ?hi)" "matchScore ?hi \<ge> 5"
    by (simp_all add: scenario_gap_def)
  have lo: "isProcessed ?lo" "\<not> truthy (processingError ?lo)" "matchScore ?lo < 5"
    by (simp_all add: scenario_gap_def)
  from qualification_threshold [OF hi(1,2)] hi(3)
  have "view_qualification (ResumeScoreCard ?hi) =
          Some ''Qualified - Resume meets minimum requirements''"
    by blast
  moreover from qualification_threshold [OF lo(1,2)] lo(3)
  have "view_qualification (ResumeScoreCard ?lo) =
          Some ''Below threshold - Consider improving your resume''"
    by blast
  ultimately show ?thesis by (rule conjI)
qed

subsection \<open>Bands\<close>

text \<open>
  C2. The band of a score is fixed by the thresholds 8, 6 and 4: "Excellent Match" from 8,
  "Good Match" from 6 up to 8, "Fair Match" from 4 up to 6, "Needs Improvement" below 4.
  The four conditions are exclusive and exhaustive, so every score has exactly one band,
  and the colour token follows the same thresholds. The scores 8, 6, 4 and 3.999 fall in
  the four bands in turn.
\<close>

theorem band_thresholds:
  "(getScoreLabel s = ''Excellent Match'') = (8 \<le> s) \<and>
   (getScoreLabel s = ''Good Match'') = (6 \<le> s \<and> s < 8) \<and>
   (getScoreLabel s = ''Fair Match'') = (4 \<le> s \<and> s < 6) \<and>
   (getScoreLabel s = ''Needs Improvement'') = (s < 4) \<and>
   (getScoreColor s = ''text-green-600 bg-green-100'') = (8 \<le> s) \<and>
   (getScoreColor s = ''text-yellow-600 bg-yellow-100'') = (6 \<le> s \<and> s < 8) \<and>
   (getScoreColor s = ''text-orange-600 bg-orange-100'') = (4 \<le> s \<and> s < 6) \<and>
   (getScoreColor s = ''text-red-600 bg-red-100'') = (s < 4) \<and>
   getScoreLabel 8 = ''Excellent Match'' \<and>
   getScoreLabel 6 = ''Good Match'' \<and>
   getScoreLabel 4 = ''Fair Match'' \<and>
   getScoreLabel (3999 / 1000) = ''Needs Improvement''"
  by (simp add: getScoreLabel_def getScoreColor_def)

subsection \<open>Recommendations\<close>

lemma recommendations_spec:
  "recommendations (matchScore a) (skillsScore a) (experienceScore a) (educationScore a)
     (default 0 (companyScore a)) (job a) = recommend_spec a"
  by (simp add: recommendations_def recommend_spec_def rule_list_def)

lemma view_recommendations_scored:
  assumes "isProcessed a" and "\<not> truthy (processingError a)"
  shows "view_recommendations (ResumeScoreCard a) =
           Some (recommendations (matchScore a) (skillsScore a) (experienceScore a)
                   (educationScore a) (default 0 (companyScore a)) (job a))"
proof -
  obtain v where v: "ResumeScoreCard a = Scored v"
    using assms by (simp add: scored_iff)
  then have "sv_recommendations v =
               recommendations (matchScore a) (skillsScore a) (experienceScore a)
                 (educationScore a) (default 0 (companyScore a)) (job a)"
    by (simp add: scored_iff)
  with v show ?thesis by simp
qed

text \<open>
  C3. For a scored assessment the recommendation list is the list of the seven declared
  rules, in their declared order, cut down to the rules whose predicate holds: each rule
  gives its one message or nothing. The list is a function of the assessment alone.
\<close>

theorem recommend_in_declared_order:
  assumes "isProcessed a" and "\<not> truthy (processingError a)"
  shows "view_recommendations (ResumeScoreCard a) =
           Some (map fst (filter (\<lambda>r. snd r a) rule_list))"
  using view_recommendations_scored [OF assms]
  by (simp only: recommendations_spec recommend_spec_def)

theorem recommend_in_declared_order_witness:
  "view_recommendations (ResumeScoreCard scenario_strong) =
     Some [''Excellent! Your experience with similar companies is a strong advantage'',
           ''Great match! Your profile aligns well with this position''] \<and>
   view_recommendations (ResumeScoreCard scenario_gap) =
     Some [''Focus on highlighting more relevant technical skills (highest impact)'']"
proof -
  have s: "isProcessed scenario_strong" "\<not> truthy (processingError scenario_strong)"
    using scenario_strong_scored by simp_all
  have g: "isProcessed scenario_gap" "\<not> truthy (processingError scenario_gap)"
    using scenario_gap_scored by simp_all
  have "map fst (filter (\<lambda>r. snd r scenario_strong) rule_list) =
          [''Excellent! Your experience with similar companies is a strong advantage'',
           ''Great match! Your profile aligns well with this position'']"
    by (simp add: rule_list_def scenario_strong_def default_def has_company_def)
  moreover have "map fst (filter (\<lambda>r. snd r scenario_gap) rule_list) =
          [''Focus on highlighting more relevant technical skills (highest impact)'']"
    by (simp add: rule_list_def scenario_gap_def default_def has_company_def)
  ultimately show ?thesis
    using recommend_in_declared_order [OF s] recommend_in_declared_order [OF g]
    by (simp only: simp_thms)
qed

lemma company_rules_disjoint:
  "\<not> (company_gap_text \<in> set (recommendations m s x d c jo) \<and>
      company_match_text \<in> set (recommendations m s x d c jo))"
  by (auto simp: recommendations_def company_gap_text_def company_match_text_def)

text \<open>
  C8. No recommendation list holds both company messages: rule 4 asks for a company
  score of 0 and rule 5 for a positive one.
\<close>

theorem company_rules_exclusive:
  assumes "view_recommendations (ResumeScoreCard a) = Some rs"
  shows "\<not> (company_gap_text \<in> set rs \<and> company_match_text \<in> set rs)"
proof -
  from assms obtain v where v: "ResumeScoreCard a = Scored v" and rs: "rs = sv_recommendations v"
    by (cases "ResumeScoreCard a") auto
  from v have "sv_recommendations v =
      recommendations (matchScore a) (skillsScore a) (experienceScore a)
        (educationScore a) (default 0 (companyScore a)) (job a)"
    by (simp add: scored_iff)
  with rs show ?thesis
    using company_rules_disjoint by simp
qed

theorem company_rules_exclusive_witness:
  "view_recommendations (ResumeScoreCard scenario_strong) =
     Some [company_match_text, ''Great match! Your profile aligns well with this position''] \<and>
   company_match_text \<in>
     set [company_match_text, ''Great match! Your profile aligns well with this position''] \<and>
   company_gap_text \<notin>
     set [company_match_text, ''Great match! Your profile aligns well with this position'']"
proof -
  let ?rs = "[company_match_text, ''Great match! Your profile aligns well with this position'']"
  have "isProcessed scenario_strong" "\<not> truthy (processingError scenario_strong)"
    using scenario_strong_scored by simp_all
  then have "view_recommendations (ResumeScoreCard scenario_strong) =
               Some (recommend_spec scenario_strong)"
    using view_recommendations_scored recommendations_spec by simp
  moreover have "recommend_spec scenario_strong = ?rs"
    by (simp add: recommend_spec_def rule_list_def scenario_strong_def default_def
        has_company_def company_match_text_def)
  ultimately have r: "view_recommendations (ResumeScoreCard scenario_strong) = Some ?rs"
    by simp
  have m: "company_match_text \<in> set ?rs" by simp
  from company_rules_exclusive [OF r] m have "company_gap_text \<notin> set ?rs"
    by blast
  with r m show ?thesis by blast
qed

subsection \<open>Sub-scores\<close>

text \<open>
  C4, as stated, fails: the component bands no sub-score. A skills score of 4 out of 6
  has the 12-point equivalent 8, an "Excellent Match", and a skills score of 1 out of 6
  the 12-point equivalent 2, a "Needs Improvement"; the skills card of either is the
  figure, its maximum and its progress value in the same fixed colour, with no band. The
  one band on either card is "Good Match", that of the total 6.
\<close>

theorem sub_scores_not_banded_counterexample:
  "classify_rescaled 4 6 = ''Excellent Match'' \<and>
   classify_rescaled 1 6 = ''Needs Improvement'' \<and>
   view_skills (ResumeScoreCard scenario_skills_high) =
     Some \<lparr> card_color = ''text-blue-600'', card_score = 4, card_max = 6,
            card_progress = Num (2345624805922133 / 35184372088832) \<rparr> \<and>
   view_skills (ResumeScoreCard scenario_skills_low) =
     Some \<lparr> card_color = ''text-blue-600'', card_score = 1, card_max = 6,
            card_progress = Num (2345624805922133 / 140737488355328) \<rparr> \<and>
   view_card_colors (ResumeScoreCard scenario_skills_high) =
     Some [''text-blue-600'', ''text-purple-600'', ''text-green-600'', ''text-orange-600''] \<and>
   view_card_colors (ResumeScoreCard scenario_skills_low) =
     Some [''text-blue-600'', ''text-purple-600'', ''text-green-600'', ''text-orange-600''] \<and>
   view_band (ResumeScoreCard scenario_skills_high) =
     Some (''Good Match'', ''text-yellow-600 bg-yellow-100'') \<and>
   view_band (ResumeScoreCard scenario_skills_low) =
     Some (''Good Match'', ''text-yellow-600 bg-yellow-100'')"
  by (simp add: ResumeScoreCard_def Let_def scenario_skills_high_def scenario_skills_low_def
      scenario_gap_def classify_rescaled_def getScoreLabel_def getScoreColor_def
      companyCard_def default_def percent_4_6 percent_1_6)

text \<open>
  C4, amended. The scored card bands the overall score only, by the unscaled
  \<open>matchScore\<close> (which is its own 12-point equivalent). The four sub-score cards carry
  no band: their colours are fixed, whatever the sub-scores are.
\<close>

theorem band_of_overall_score_only:
  assumes "isProcessed a" and "\<not> truthy (processingError a)"
  shows "view_band (ResumeScoreCard a) =
           Some (getScoreLabel (matchScore a), getScoreColor (matchScore a)) \<and>
         getScoreLabel (matchScore a) = classify_rescaled (matchScore a) 12 \<and>
         view_card_colors (ResumeScoreCard a) =
           Some [''text-blue-600'', ''text-purple-600'', ''text-green-600'', ''text-orange-600'']"
proof -
  obtain v where v: "ResumeScoreCard a = Scored v"
    using assms by (simp add: scored_iff)
  then have "sv_label v = getScoreLabel (matchScore a)" "sv_color v = getScoreColor (matchScore a)"
    "card_color (sv_skills v) = ''text-blue-600''"
    "card_color (sv_experience v) = ''text-purple-600''"
    "card_color (sv_education v) = ''text-green-600''"
    "cc_color (sv_company v) = ''text-orange-600''"
    by (simp_all add: scored_iff companyCard_def)
  with v show ?thesis
    by (simp add: classify_rescaled_def)
qed

theorem band_of_overall_score_only_witness:
  "view_band (ResumeScoreCard (scenario_strong \<lparr> skillsScore := 1 \<rparr>)) =
     Some (''Excellent Match'', ''text-green-600 bg-green-100'') \<and>
   view_card_colors (ResumeScoreCard (scenario_strong \<lparr> skillsScore := 1 \<rparr>)) =
     Some [''text-blue-600'', ''text-purple-600'', ''text-green-600'', ''text-orange-600'']"
proof -
  let ?a = "scenario_strong \<lparr> skillsScore := 1 \<rparr>"
  have h: "isProcessed ?a" "\<not> truthy (processingError ?a)"
    by (simp_all add: scenario_strong_def)
  have "getScoreLabel (matchScore ?a) = ''Excellent Match''"
    "getScoreColor (matchScore ?a) = ''text-green-600 bg-green-100''"
    by (simp_all add: scenario_strong_def getScoreLabel_def getScoreColor_def)
  with band_of_overall_score_only [OF h] show ?thesis
    by (simp only: simp_thms)
qed

subsection \<open>Progress values\<close>

text \<open>
  C5, as stated, fails: nothing is clamped. A total of 13 gives the overall progress bar
  the double \<open>108.33333333333333\<close>, a ratio above 1, and a total of \<open>2 ^ 1023\<close> gives
  it \<open>Infinity\<close>.
\<close>

theorem progress_unclamped_counterexample:
  "view_progress (ResumeScoreCard scenario_overflow) =
     Some (Num (7623280619246933 / 70368744177664)) \<and>
   (100 :: rat) < 7623280619246933 / 70368744177664 \<and>
   \<not> within_percent (Num (7623280619246933 / 70368744177664)) \<and>
   view_progress (ResumeScoreCard scenario_huge) = Some PosInf \<and>
   \<not> within_percent PosInf"
  by (simp add: ResumeScoreCard_def Let_def scenario_overflow_def scenario_huge_def
      scenario_gap_def within_percent_def percent_13_12 percent_huge [simplified])

text \<open>
  C5, amended. No progress value comes from a division by zero: each is the double
  \<open>(score / scale) * 100\<close> for the literal scale 12, 6, 2 or 2, passed on as computed,
  and none is \<open>NaN\<close>. It is a finite number between 0 and 100 (the percentage of a
  ratio between 0 and 1) whenever the score lies between 0 and its scale. The company
  progress is 0 or 100 for every score.
\<close>

theorem progress_values:
  assumes "ResumeScoreCard a = Scored v"
  shows "sv_progress v = percent (matchScore a) 12 \<and>
         sv_gradient_stop v = percent (matchScore a) 12 \<and>
         card_progress (sv_skills v) = percent (skillsScore a) 6 \<and>
         card_progress (sv_experience v) = percent (experienceScore a) 2 \<and>
         card_progress (sv_education v) = percent (educationScore a) 2 \<and>
         sv_progress v \<noteq> NaN \<and> sv_gradient_stop v \<noteq> NaN \<and>
         card_progress (sv_skills v) \<noteq> NaN \<and>
         card_progress (sv_experience v) \<noteq> NaN \<and>
         card_progress (sv_education v) \<noteq> NaN \<and>
         (cc_progress (sv_company v) = 0 \<or> cc_progress (sv_company v) = 100) \<and>
         (0 \<le> matchScore a \<and> matchScore a \<le> 12 \<longrightarrow>
            within_percent (sv_progress v) \<and> within_percent (sv_gradient_stop v)) \<and>
         (0 \<le> skillsScore a \<and> skillsScore a \<le> 6 \<longrightarrow>
            within_percent (card_progress (sv_skills v))) \<and>
         (0 \<le> experienceScore a \<and> experienceScore a \<le> 2 \<longrightarrow>
            within_percent (card_progress (sv_experience v))) \<and>
         (0 \<le> educationScore a \<and> educationScore a \<le> 2 \<longrightarrow>
            within_percent (card_progress (sv_education v)))"
proof -
  from assms have p: "sv_progress v = percent (matchScore a) 12"
    "sv_gradient_stop v = percent (matchScore a) 12"
    "card_progress (sv_skills v) = percent (skillsScore a) 6"
    "card_progress (sv_experience v) = percent (experienceScore a) 2"
    "card_progress (sv_education v) = percent (educationScore a) 2"
    by (simp_all add: scored_iff)
  from assms have c: "cc_progress (sv_company v) = 0 \<or> cc_progress (sv_company v) = 100"
    by (simp add: scored_iff companyCard_def)
  have n: "percent s 12 \<noteq> NaN" "percent s 6 \<noteq> NaN" "percent s 2 \<noteq> NaN" for s
    by (simp_all add: percent_not_NaN)
  have r: "0 \<le> s \<and> s \<le> 12 \<longrightarrow> within_percent (percent s 12)"
    "0 \<le> s \<and> s \<le> 6 \<longrightarrow> within_percent (percent s 6)"
    "0 \<le> s \<and> s \<le> 2 \<longrightarrow> within_percent (percent s 2)" for s
    by (simp_all add: percent_in_range)
  show ?thesis
    unfolding p using c n r by simp
qed

theorem progress_values_witness:
  "\<exists>v. ResumeScoreCard scenario_gap = Scored v \<and>
       sv_progress v = Num 50 \<and>
       card_progress (sv_skills v) = Num (2345624805922133 / 70368744177664) \<and>
       card_progress (sv_experience v) = Num 100 \<and>
       card_progress (sv_education v) = Num 100 \<and>
       cc_progress (sv_company v) = 0 \<and>
       within_percent (sv_progress v) \<and>
       within_percent (card_progress (sv_skills v)) \<and>
       within_percent (card_progress (sv_experience v)) \<and>
       within_percent (card_progress (sv_education v))"
proof -
  obtain v where v: "ResumeScoreCard scenario_gap = Scored v"
    using scenario_gap_scored by (simp add: scored_iff)
  have m: "matchScore scenario_gap = 6" "skillsScore scenario_gap = 2"
    "experienceScore scenario_gap = 2" "educationScore scenario_gap = 2"
    by (simp_all add: scenario_gap_def)
  have i: "(0::rat) \<le> 6 \<and> (6::rat) \<le> 12" "(0::rat) \<le> 2 \<and> (2::rat) \<le> 6"
    "(0::rat) \<le> 2 \<and> (2::rat) \<le> 2"
    by simp_all
  have c: "cc_progress (sv_company v) = 0"
    using v by (simp add: scored_iff scenario_gap_def companyCard_def default_def)
  from progress_values [OF v] have
    "sv_progress v = percent 6 12 \<and>
     card_progress (sv_skills v) = percent 2 6 \<and>
     card_progress (sv_experience v) = percent 2 2 \<and>
     card_progress (sv_education v) = percent 2 2 \<and>
     within_percent (sv_progress v) \<and>
     within_percent (card_progress (sv_skills v)) \<and>
     within_percent (card_progress (sv_experience v)) \<and>
     within_percent (card_progress (sv_education v))"
    unfolding m using i by blast
  with v c show ?thesis
    by (auto simp only: percent_6_12 percent_2_6 percent_2_2)
qed

subsection \<open>Dispatch on the state of the assessment\<close>

text \<open>
  C6. An assessment with \<open>isProcessed = false\<close> gets the pending card, which shows no
  band, no recommendation and no qualification status.
\<close>

theorem pending_shows_no_scoring:
  assumes "\<not> isProcessed a"
  shows "ResumeScoreCard a = Pending \<and>
         view_band (ResumeScoreCard a) = None \<and>
         view_recommendations (ResumeScoreCard a) = None \<and>
         view_qualification (ResumeScoreCard a) = None"
proof -
  from assms have "ResumeScoreCard a = Pending"
    by (simp add: pending_iff)
  then show ?thesis by simp
qed

theorem pending_shows_no_scoring_witness:
  "\<not> isProcessed (scenario_gap \<lparr> isProcessed := False \<rparr>) \<and>
   ResumeScoreCard (scenario_gap \<lparr> isProcessed := False \<rparr>) = Pending \<and>
   view_band (ResumeScoreCard (scenario_gap \<lparr> isProcessed := False \<rparr>)) = None \<and>
   view_recommendations (ResumeScoreCard (scenario_gap \<lparr> isProcessed := False \<rparr>)) = None \<and>
   view_qualification (ResumeScoreCard (scenario_gap \<lparr> isProcessed := False \<rparr>)) = None"
proof -
  have h: "\<not> isProcessed (scenario_gap \<lparr> isProcessed := False \<rparr>)" by simp
  from pending_shows_no_scoring [OF h] h show ?thesis by (rule conjI [rotated])
qed

text \<open>
  C7, as stated, fails: the error branch is taken on the truthiness of
  \<open>processingError\<close>, so a processed assessment whose error text is present and empty
  gets the scored card, with its band, recommendations and qualification status.
\<close>

theorem empty_error_counterexample:
  "isProcessed scenario_empty_error \<and>
   processingError scenario_empty_error = Some [] \<and>
   processingError scenario_empty_error \<noteq> None \<and>
   view_error (ResumeScoreCard scenario_empty_error) = None \<and>
   view_band (ResumeScoreCard scenario_empty_error) =
     Some (''Good Match'', ''text-yellow-600 bg-yellow-100'') \<and>
   view_recommendations (ResumeScoreCard scenario_empty_error) =
     Some [''Focus on highlighting more relevant technical skills (highest impact)''] \<and>
   view_qualification (ResumeScoreCard scenario_empty_error) =
     Some ''Qualified - Resume meets minimum requirements''"
  by (simp add: ResumeScoreCard_def Let_def scenario_empty_error_def scenario_gap_def
      getScoreLabel_def getScoreColor_def recommendations_def qualification_def
      default_def has_company_def)

text \<open>
  C7, amended. A processed assessment with a non-empty \<open>processingError\<close> gets the
  failed card: it shows that text unchanged, and no band, no recommendation and no
  qualification status.
\<close>

theorem error_shown_verbatim:
  assumes "isProcessed a" and "processingError a = Some e" and "e \<noteq> []"
  shows "ResumeScoreCard a = Failed e \<and>
         view_error (ResumeScoreCard a) = Some e \<and>
         view_band (ResumeScoreCard a) = None \<and>
         view_recommendations (ResumeScoreCard a) = None \<and>
         view_qualification (ResumeScoreCard a) = None"
proof -
  from assms have "ResumeScoreCard a = Failed e"
    by (simp add: failed_iff)
  then show ?thesis by simp
qed

theorem error_shown_verbatim_witness:
  "ResumeScoreCard scenario_failed = Failed ''OCR failed'' \<and>
   view_error (ResumeScoreCard scenario_failed) = Some ''OCR failed'' \<and>
   view_band (ResumeScoreCard scenario_failed) = None \<and>
   view_recommendations (ResumeScoreCard scenario_failed) = None \<and>
   view_qualification (ResumeScoreCard scenario_failed) = None"
proof -
  have h: "isProcessed scenario_failed" "processingError scenario_failed = Some ''OCR failed''"
    "''OCR failed'' \<noteq> []"
    by (simp_all add: scenario_failed_def scenario_gap_def)
  show ?thesis by (rule error_shown_verbatim [OF h])
qed

text \<open>
  C9. The pending check comes first: the card is the pending one exactly when
  \<open>isProcessed\<close> is false, whatever \<open>processingError\<close> holds. The failed card is
  returned only for a processed assessment (with an error text that counts as set), and
  the scored card for every other processed assessment, so each assessment gets exactly
  one of the three cards.
\<close>

theorem pending_before_failed:
  "(ResumeScoreCard a = Pending) = (\<not> isProcessed a) \<and>
   (\<exists>e. ResumeScoreCard a = Failed e) = (isProcessed a \<and> truthy (processingError a)) \<and>
   (\<exists>v. ResumeScoreCard a = Scored v) = (isProcessed a \<and> \<not> truthy (processingError a)) \<and>
   (ResumeScoreCard a = Failed e) = (isProcessed a \<and> processingError a = Some e \<and> e \<noteq> [])"
proof -
  have "(\<exists>e. ResumeScoreCard a = Failed e) = (isProcessed a \<and> truthy (processingError a))"
    by (cases "processingError a") (auto simp: failed_iff)
  moreover have "(\<exists>v. ResumeScoreCard a = Scored v) =
                   (isProcessed a \<and> \<not> truthy (processingError a))"
    by (simp add: scored_iff)
  ultimately show ?thesis
    by (simp only: pending_iff failed_iff simp_thms)
qed

theorem pending_before_failed_witness:
  "processingError scenario_pending = Some ''OCR failed'' \<and>
   ResumeScoreCard scenario_pending = Pending \<and>
   ResumeScoreCard scenario_pending \<noteq> Failed ''OCR failed''"
proof -
  have h: "\<not> isProcessed scenario_pending"
    "processingError scenario_pending = Some ''OCR failed''"
    by (simp_all add: scenario_pending_def)
  from pending_before_failed [of scenario_pending "''OCR failed''"] h
  show ?thesis by blast
qed

subsection \<open>Absent optional fields\<close>

text \<open>
  C10. An absent \<open>companyScore\<close> gives the card of \<open>companyScore = 0\<close>, and an absent
  \<open>parsedCompanies\<close> the card of the empty list. So on the scored card of an assessment
  without \<open>companyScore\<close> the rule-5 message is missing, the company figure is 0 with
  progress 0, and the rule-4 message is there exactly when the job has a company; without
  \<open>parsedCompanies\<close> no company names are listed.
\<close>

theorem absent_company_fields:
  "ResumeScoreCard (a \<lparr> companyScore := None \<rparr>) = ResumeScoreCard (a \<lparr> companyScore := Some 0 \<rparr>) \<and>
   ResumeScoreCard (a \<lparr> parsedCompanies := None \<rparr>) =
     ResumeScoreCard (a \<lparr> parsedCompanies := Some [] \<rparr>) \<and>
   (companyScore a = None \<and> ResumeScoreCard a = Scored v \<longrightarrow>
      company_match_text \<notin> set (sv_recommendations v) \<and>
      cc_figure (sv_company v) = Plain 0 \<and>
      cc_progress (sv_company v) = 0 \<and>
      (company_gap_text \<in> set (sv_recommendations v)) = has_company (job a)) \<and>
   (parsedCompanies a = None \<and> ResumeScoreCard a = Scored v \<longrightarrow>
      cc_companies (sv_company v) = None)"
proof -
  have 1: "ResumeScoreCard (a \<lparr> companyScore := None \<rparr>) =
             ResumeScoreCard (a \<lparr> companyScore := Some 0 \<rparr>)"
    by (simp add: ResumeScoreCard_def Let_def default_def)
  have 2: "ResumeScoreCard (a \<lparr> parsedCompanies := None \<rparr>) =
             ResumeScoreCard (a \<lparr> parsedCompanies := Some [] \<rparr>)"
    by (simp add: ResumeScoreCard_def Let_def default_def)
  have 3: "company_match_text \<notin> set (recommendations m s x d 0 jo)" for m s x d jo
    by (simp add: recommendations_def company_match_text_def)
  have 4: "(company_gap_text \<in> set (recommendations m s x d 0 jo)) = has_company jo"
    for m s x d jo
    by (simp add: recommendations_def company_gap_text_def)
  have 5: "cc_figure (companyCard 0 ps) = Plain 0 \<and> cc_progress (companyCard 0 ps) = 0" for ps
    by (simp add: companyCard_def)
  have 6: "cc_companies (companyCard c []) = None" for c
    by (simp add: companyCard_def)
  show ?thesis
    using 1 2 3 4 5 6 by (auto simp: scored_iff default_def)
qed

theorem absent_company_fields_witness:
  "companyScore scenario_no_company_fields = None \<and>
   parsedCompanies scenario_no_company_fields = None \<and>
   has_company (job scenario_no_company_fields) \<and>
   (\<exists>v. ResumeScoreCard scenario_no_company_fields = Scored v \<and>
        company_gap_text \<in> set (sv_recommendations v) \<and>
        company_match_text \<notin> set (sv_recommendations v) \<and>
        cc_progress (sv_company v) = 0 \<and>
        cc_companies (sv_company v) = None)"
proof -
  let ?a = scenario_no_company_fields
  have h: "companyScore ?a = None" "parsedCompanies ?a = None" "has_company (job ?a)"
    by (simp_all add: scenario_no_company_fields_def scenario_strong_def has_company_def)
  have "isProcessed ?a \<and> \<not> truthy (processingError ?a)"
    by (simp add: scenario_no_company_fields_def scenario_strong_def)
  then obtain v where v: "ResumeScoreCard ?a = Scored v"
    by (simp add: scored_iff)
  from absent_company_fields [of ?a v] h v
  have "company_gap_text \<in> set (sv_recommendations v) \<and>
        company_match_text \<notin> set (sv_recommendations v) \<and>
        cc_progress (sv_company v) = 0 \<and>
        cc_companies (sv_company v) = None"
    by blast
  with h v show ?thesis by blast
qed

end
